theory Spec2Isabelle
  imports Complex_Main "HOL-Library.Char_ord" "HOL-Library.List_Lexorder"
begin

section \<open>Python values reaching the fraud scorer\<close>

text \<open>
  A transaction is a \<^verbatim>\<open>Dict[str, Any]\<close>: it comes from \<^verbatim>\<open>json.loads\<close> (CLI and
  websocket feed) or from a data-frame row. The values are modelled as follows.
  \<^item> \<open>PFloat\<close> is a finite float in a transaction, read as the real number it denotes;
    a NaN or an infinity in a transaction is outside the model. The feature extractor
    does no float arithmetic beyond conversions.
  \<^item> \<open>PStr\<close> is an ASCII string.
  \<^item> \<open>PColl n s\<close> is a list, tuple, set or dict, given by the two things the extractor
    can observe of it: its \<^verbatim>\<open>len()\<close>, \<open>n\<close>, and its \<^verbatim>\<open>str()\<close> text, \<open>s\<close>.
\<close>

datatype pyval =
    PNone
  | PBool bool
  | PInt int
  | PFloat real
  | PStr string
  | PColl nat string

text \<open>Exceptions deriving from \<^verbatim>\<open>Exception\<close>, as caught by \<^verbatim>\<open>except Exception\<close>.\<close>

datatype pyexc =
    TypeError
  | ValueError
  | KeyError
  | IndexError
  | AttributeError
  | OverflowError
  | ZeroDivisionError
  | NotFittedError
  | OtherException string

text \<open>
  The floats the scorer computes with: what an estimator returns and what \<^verbatim>\<open>score\<close>
  makes of it. They may be infinite or NaN. Comparison and negation are exact in
  floating point and are defined here; a comparison with NaN is false.
\<close>

datatype pyfloat = Fin real | PosInf | NegInf | NaN

fun float_lt :: "pyfloat \<Rightarrow> pyfloat \<Rightarrow> bool" where
  \<comment> \<open>\<^verbatim>\<open>a < b\<close>\<close>
  "float_lt (Fin a) (Fin b) = (a < b)"
| "float_lt (Fin a) PosInf = True"
| "float_lt (Fin a) NegInf = False"
| "float_lt (Fin a) NaN = False"
| "float_lt PosInf b = False"
| "float_lt NegInf (Fin b) = True"
| "float_lt NegInf PosInf = True"
| "float_lt NegInf NegInf = False"
| "float_lt NegInf NaN = False"
| "float_lt NaN b = False"

definition float_ge :: "pyfloat \<Rightarrow> pyfloat \<Rightarrow> bool" where
  \<comment> \<open>\<^verbatim>\<open>a >= b\<close>\<close>
  "float_ge a b = (a \<noteq> NaN \<and> b \<noteq> NaN \<and> \<not> float_lt a b)"

definition py_max :: "pyfloat \<Rightarrow> pyfloat \<Rightarrow> pyfloat" where
  \<comment> \<open>\<^verbatim>\<open>max(a, b)\<close>: the second argument only when it is greater than the first\<close>
  "py_max a b = (if float_lt a b then b else a)"

definition py_min :: "pyfloat \<Rightarrow> pyfloat \<Rightarrow> pyfloat" where
  \<comment> \<open>\<^verbatim>\<open>min(a, b)\<close>: the second argument only when it is less than the first\<close>
  "py_min a b = (if float_lt b a then b else a)"

fun float_neg :: "pyfloat \<Rightarrow> pyfloat" where
  \<comment> \<open>\<^verbatim>\<open>-a\<close>\<close>
  "float_neg (Fin a) = Fin (- a)"
| "float_neg PosInf = NegInf"
| "float_neg NegInf = PosInf"
| "float_neg NaN = NaN"

text \<open>
  What the interpreter supplies and the model does not compute: the text of a float
  (\<^verbatim>\<open>str(x)\<close>), the parsers behind \<^verbatim>\<open>float(s)\<close> and \<^verbatim>\<open>int(s)\<close> on a string
  (\<open>None\<close> where Python raises ValueError), whether \<^verbatim>\<open>float(i)\<close> raises OverflowError
  on an int, and the rounded float arithmetic of the scorer: \<^verbatim>\<open>a + b\<close>, \<^verbatim>\<open>a * b\<close>,
  \<^verbatim>\<open>a / b\<close> (which may raise ZeroDivisionError) and \<^verbatim>\<open>math.exp(a)\<close> (which may raise
  OverflowError). Nothing is assumed of this arithmetic.
\<close>

record pyenv =
  str_of_float :: "real \<Rightarrow> string"
  float_of_str :: "string \<Rightarrow> real option"
  int_of_str :: "string \<Rightarrow> int option"
  int_overflows :: "int \<Rightarrow> bool"
  float_add :: "pyfloat \<Rightarrow> pyfloat \<Rightarrow> pyfloat"
  float_mul :: "pyfloat \<Rightarrow> pyfloat \<Rightarrow> pyfloat"
  float_div :: "pyfloat \<Rightarrow> pyfloat \<Rightarrow> pyexc + pyfloat"
  math_exp :: "pyfloat \<Rightarrow> pyexc + pyfloat"

type_synonym tx = "string \<rightharpoonup> pyval"

definition dict_get :: "tx \<Rightarrow> string \<Rightarrow> pyval \<Rightarrow> pyval" where
  \<comment> \<open>\<^verbatim>\<open>tx.get(key, default)\<close>\<close>
  "dict_get t k d = (case t k of None \<Rightarrow> d | Some v \<Rightarrow> v)"

fun truthy :: "pyval \<Rightarrow> bool" where
  "truthy PNone = False"
| "truthy (PBool b) = b"
| "truthy (PInt i) = (i \<noteq> 0)"
| "truthy (PFloat r) = (r \<noteq> 0)"
| "truthy (PStr s) = (s \<noteq> [])"
| "truthy (PColl n s) = (n \<noteq> 0)"

definition py_or :: "pyval \<Rightarrow> pyval \<Rightarrow> pyval" where
  \<comment> \<open>\<^verbatim>\<open>a or b\<close>\<close>
  "py_or a b = (if truthy a then a else b)"

fun py_float :: "pyenv \<Rightarrow> pyval \<Rightarrow> pyexc + real" where
  "py_float env PNone = Inl TypeError"
| "py_float env (PBool b) = Inr (if b then 1 else 0)"
| "py_float env (PInt i) = (if int_overflows env i then Inl OverflowError else Inr (real_of_int i))"
| "py_float env (PFloat r) = Inr r"
| "py_float env (PStr s) = (case float_of_str env s of None \<Rightarrow> Inl ValueError | Some r \<Rightarrow> Inr r)"
| "py_float env (PColl n s) = Inl TypeError"

definition trunc :: "real \<Rightarrow> int" where
  \<comment> \<open>\<^verbatim>\<open>int(x)\<close> on a float rounds toward zero\<close>
  "trunc r = (if 0 \<le> r then \<lfloor>r\<rfloor> else \<lceil>r\<rceil>)"

fun py_int :: "pyenv \<Rightarrow> pyval \<Rightarrow> pyexc + int" where
  "py_int env PNone = Inl TypeError"
| "py_int env (PBool b) = Inr (if b then 1 else 0)"
| "py_int env (PInt i) = Inr i"
| "py_int env (PFloat r) = Inr (trunc r)"
| "py_int env (PStr s) = (case int_of_str env s of None \<Rightarrow> Inl ValueError | Some i \<Rightarrow> Inr i)"
| "py_int env (PColl n s) = Inl TypeError"

fun floordiv1000 :: "pyval \<Rightarrow> pyexc + pyval" where
  \<comment> \<open>\<^verbatim>\<open>ts // 1000\<close>: defined on numbers only\<close>
  "floordiv1000 (PBool b) = Inr (PInt ((if b then 1 else 0) div 1000))"
| "floordiv1000 (PInt i) = Inr (PInt (i div 1000))"
| "floordiv1000 (PFloat r) = Inr (PFloat (real_of_int \<lfloor>r / 1000\<rfloor>))"
| "floordiv1000 PNone = Inl TypeError"
| "floordiv1000 (PStr s) = Inl TypeError"
| "floordiv1000 (PColl n s) = Inl TypeError"

fun py_len :: "pyval \<Rightarrow> pyexc + nat" where
  "py_len (PStr s) = Inr (length s)"
| "py_len (PColl n s) = Inr n"
| "py_len PNone = Inl TypeError"
| "py_len (PBool b) = Inl TypeError"
| "py_len (PInt i) = Inl TypeError"
| "py_len (PFloat r) = Inl TypeError"

definition digit_char :: "nat \<Rightarrow> char" where
  "digit_char d = ''0123456789'' ! d"

fun str_nat :: "nat \<Rightarrow> string" where
  "str_nat n = (if n < 10 then [digit_char n] else str_nat (n div 10) @ [digit_char (n mod 10)])"

definition str_int :: "int \<Rightarrow> string" where
  "str_int i = (if i < 0 then CHR ''-'' # str_nat (nat (- i)) else str_nat (nat i))"

fun py_str :: "pyenv \<Rightarrow> pyval \<Rightarrow> string" where
  "py_str env PNone = ''None''"
| "py_str env (PBool b) = (if b then ''True'' else ''False'')"
| "py_str env (PInt i) = str_int i"
| "py_str env (PFloat r) = str_of_float env r"
| "py_str env (PStr s) = s"
| "py_str env (PColl n s) = s"

definition lower_char :: "char \<Rightarrow> char" where
  \<comment> \<open>ASCII only\<close>
  "lower_char c =
     (case map_of (zip ''ABCDEFGHIJKLMNOPQRSTUVWXYZ'' ''abcdefghijklmnopqrstuvwxyz'') c of
        None \<Rightarrow> c
      | Some l \<Rightarrow> l)"

definition lower :: "string \<Rightarrow> string" where
  "lower s = map lower_char s"

definition starts_with :: "string \<Rightarrow> string \<Rightarrow> bool" where
  "starts_with s p = (take (length p) s = p)"

fun str_contains :: "string \<Rightarrow> string \<Rightarrow> bool" where
  \<comment> \<open>\<^verbatim>\<open>needle in hay\<close> on strings\<close>
  "str_contains needle [] = (needle = [])"
| "str_contains needle (c # cs) = (starts_with (c # cs) needle \<or> str_contains needle cs)"

fun num_val :: "pyval \<Rightarrow> real option" where
  "num_val (PBool b) = Some (if b then 1 else 0)"
| "num_val (PInt i) = Some (real_of_int i)"
| "num_val (PFloat r) = Some r"
| "num_val PNone = None"
| "num_val (PStr s) = None"
| "num_val (PColl n s) = None"

definition py_eq :: "pyval \<Rightarrow> pyval \<Rightarrow> bool" where
  \<comment> \<open>\<^verbatim>\<open>a == b\<close>: bool, int and float compare by value; a string equals only a string\<close>
  "py_eq a b =
     (case (num_val a, num_val b) of
        (Some x, Some y) \<Rightarrow> x = y
      | (None, None) \<Rightarrow> a = b
      | _ \<Rightarrow> False)"

definition py_in :: "pyval \<Rightarrow> pyval list \<Rightarrow> bool" where
  \<comment> \<open>\<^verbatim>\<open>v in (a, b, ...)\<close>\<close>
  "py_in v xs = list_ex (py_eq v) xs"

section \<open>Feature extraction\<close>

definition safe_num :: "pyenv \<Rightarrow> pyval \<Rightarrow> real" where
  "safe_num env x = (case py_float env x of Inl e \<Rightarrow> 0 | Inr r \<Rightarrow> r)"

type_synonym feats = "(string \<times> real) list"

text \<open>
  \<^verbatim>\<open>_extract_features\<close> of \<^verbatim>\<open>fraud-detection-agent.py\<close>. The argument \<open>now\<close> is the
  value of \<^verbatim>\<open>int(time.time() * 1000)\<close> at the call. The result is the dict in insertion
  order.
\<close>

definition extract_features :: "pyenv \<Rightarrow> int \<Rightarrow> tx \<Rightarrow> pyexc + feats" where
  "extract_features env now t =
     (let ts = py_or (dict_get t ''ts'' PNone) (PInt now) in
      case floordiv1000 ts of Inl e \<Rightarrow> Inl e | Inr q \<Rightarrow>
     (case py_int env q of Inl e \<Rightarrow> Inl e | Inr secs \<Rightarrow>
      let hour = (secs mod 86400) div 3600;
          amount = safe_num env (dict_get t ''amount'' (PInt 0));
          status = lower (py_str env (dict_get t ''status'' (PStr '''')));
          is_retry = (if truthy (dict_get t ''retry'' (PBool False)) then 1 else 0) in
     (case py_len (py_or (dict_get t ''memo'' PNone) (PStr '''')) of Inl e \<Rightarrow> Inl e | Inr n \<Rightarrow>
      let memo_len = real n;
          st_success = (if str_contains ''success'' status then 1 else 0);
          st_failed = (if str_contains ''fail'' status then 1 else 0);
          st_queued = (if str_contains ''queue'' status then 1 else 0) in
      Inr [(''amount'', amount),
           (''hour'', real_of_int hour),
           (''is_retry'', is_retry),
           (''memo_len'', memo_len),
           (''st_success'', st_success),
           (''st_failed'', st_failed),
           (''st_queued'', st_queued)])))"

text \<open>
  \<^verbatim>\<open>_extract_features\<close> of \<^verbatim>\<open>fraud_detection_agent.py\<close>, the module the trainer
  imports. It differs in the \<^verbatim>\<open>is_retry\<close> line only.
\<close>

definition extract_features_mirror :: "pyenv \<Rightarrow> int \<Rightarrow> tx \<Rightarrow> pyexc + feats" where
  "extract_features_mirror env now t =
     (let ts = py_or (dict_get t ''ts'' PNone) (PInt now) in
      case floordiv1000 ts of Inl e \<Rightarrow> Inl e | Inr q \<Rightarrow>
     (case py_int env q of Inl e \<Rightarrow> Inl e | Inr secs \<Rightarrow>
      let hour = (secs mod 86400) div 3600;
          amount = safe_num env (dict_get t ''amount'' (PInt 0));
          status = lower (py_str env (dict_get t ''status'' (PStr '''')));
          is_retry = (if py_in (dict_get t ''retry'' (PBool False))
                            [PBool True, PInt 1, PStr ''1'', PStr ''true'', PStr ''True'']
                      then 1 else 0) in
     (case py_len (py_or (dict_get t ''memo'' PNone) (PStr '''')) of Inl e \<Rightarrow> Inl e | Inr n \<Rightarrow>
      let memo_len = real n;
          st_success = (if str_contains ''success'' status then 1 else 0);
          st_failed = (if str_contains ''fail'' status then 1 else 0);
          st_queued = (if str_contains ''queue'' status then 1 else 0) in
      Inr [(''amount'', amount),
           (''hour'', real_of_int hour),
           (''is_retry'', is_retry),
           (''memo_len'', memo_len),
           (''st_success'', st_success),
           (''st_failed'', st_failed),
           (''st_queued'', st_queued)])))"

section \<open>Model artifacts\<close>

text \<open>
  The three components of a model are duck-typed objects (\<^verbatim>\<open>clf: Any\<close>): what the
  scorer can observe of one is which of the methods \<^verbatim>\<open>transform\<close>,
  \<^verbatim>\<open>predict_proba\<close> and \<^verbatim>\<open>score_samples\<close> it has (\<open>None\<close>: no such attribute) and
  what each does on a feature matrix. For \<^verbatim>\<open>predict_proba\<close> the list is column 1 of the
  returned array, one probability per row, and \<open>Inl\<close> also stands for a result without
  that column; for \<^verbatim>\<open>score_samples\<close> the list is the returned vector. The entries are
  floats as the estimator gives them, NaN and the infinities included.
\<close>

type_synonym matrix = "real list list"

record estimator =
  transform :: "(matrix \<Rightarrow> pyexc + matrix) option"
  predict_proba :: "(matrix \<Rightarrow> pyexc + pyfloat list) option"
  score_samples :: "(matrix \<Rightarrow> pyexc + pyfloat list) option"

text \<open>Objects that \<^verbatim>\<open>joblib\<close> stores and returns.\<close>

datatype pyobj =
    ONone
  | OEst estimator
  | OStrs "string list"
  | ODict "(string \<times> pyobj) list"

fun get_transform :: "pyobj \<Rightarrow> (matrix \<Rightarrow> pyexc + matrix) option" where
  "get_transform (OEst e) = transform e"
| "get_transform ONone = None"
| "get_transform (OStrs xs) = None"
| "get_transform (ODict kvs) = None"

fun get_predict_proba :: "pyobj \<Rightarrow> (matrix \<Rightarrow> pyexc + pyfloat list) option" where
  "get_predict_proba (OEst e) = predict_proba e"
| "get_predict_proba ONone = None"
| "get_predict_proba (OStrs xs) = None"
| "get_predict_proba (ODict kvs) = None"

fun get_score_samples :: "pyobj \<Rightarrow> (matrix \<Rightarrow> pyexc + pyfloat list) option" where
  "get_score_samples (OEst e) = score_samples e"
| "get_score_samples ONone = None"
| "get_score_samples (OStrs xs) = None"
| "get_score_samples (ODict kvs) = None"

definition first_elem :: "'a list \<Rightarrow> pyexc + 'a" where
  \<comment> \<open>\<^verbatim>\<open>a[0]\<close>\<close>
  "first_elem xs = (case xs of [] \<Rightarrow> Inl IndexError | x # _ \<Rightarrow> Inr x)"

record FraudModel =
  scaler :: pyobj
  clf :: pyobj
  iso :: pyobj

text \<open>
  The estimators the fallback of \<^verbatim>\<open>FraudModel.load\<close> constructs are never fitted;
  scikit-learn's \<^verbatim>\<open>predict_proba\<close> and \<^verbatim>\<open>score_samples\<close> raise NotFittedError on an
  unfitted estimator.
\<close>

definition LogisticRegression_unfitted :: pyobj where
  "LogisticRegression_unfitted =
     OEst \<lparr>transform = None, predict_proba = Some (\<lambda>X. Inl NotFittedError), score_samples = None\<rparr>"

definition IsolationForest_unfitted :: pyobj where
  "IsolationForest_unfitted =
     OEst \<lparr>transform = None, predict_proba = None, score_samples = Some (\<lambda>X. Inl NotFittedError)\<rparr>"

definition default_model :: FraudModel where
  "default_model =
     \<lparr>scaler = ONone, clf = LogisticRegression_unfitted, iso = IsolationForest_unfitted\<rparr>"

fun FraudModel_of :: "pyobj \<Rightarrow> pyexc + FraudModel" where
  \<comment> \<open>\<^verbatim>\<open>FraudModel(**obj)\<close>: a mapping with exactly the keyword arguments of the dataclass\<close>
  "FraudModel_of (ODict kvs) =
     (if list_all (\<lambda>k. k \<in> set [''scaler'', ''clf'', ''iso'']) (map fst kvs) then
        (case (map_of kvs ''scaler'', map_of kvs ''clf'', map_of kvs ''iso'') of
           (Some s, Some c, Some i) \<Rightarrow> Inr \<lparr>scaler = s, clf = c, iso = i\<rparr>
         | _ \<Rightarrow> Inl TypeError)
      else Inl TypeError)"
| "FraudModel_of ONone = Inl TypeError"
| "FraudModel_of (OEst e) = Inl TypeError"
| "FraudModel_of (OStrs xs) = Inl TypeError"

definition load :: "pyexc + pyobj \<Rightarrow> FraudModel" where
  \<comment> \<open>the argument is the outcome of \<^verbatim>\<open>joblib.load(path)\<close>\<close>
  "load stored =
     (case stored of
        Inl e \<Rightarrow> default_model
      | Inr obj \<Rightarrow> (case FraudModel_of obj of Inl e \<Rightarrow> default_model | Inr m \<Rightarrow> m))"

definition save :: "FraudModel \<Rightarrow> pyobj" where
  \<comment> \<open>the object handed to \<^verbatim>\<open>joblib.dump\<close>\<close>
  "save m = ODict [(''scaler'', scaler m), (''clf'', clf m), (''iso'', iso m)]"

section \<open>The scoring agent\<close>

record agent =
  owner :: string
  api_base :: string
  model :: FraudModel
  model_path :: string
  threshold :: real

definition agent_init :: "string \<Rightarrow> string \<Rightarrow> pyexc + pyobj \<Rightarrow> string \<Rightarrow> real \<Rightarrow> agent" where
  \<comment> \<open>\<^verbatim>\<open>FraudDetectionAgent.__init__\<close>; \<open>stored\<close> is what \<^verbatim>\<open>joblib.load(model_path)\<close> gives\<close>
  "agent_init own base stored path risk_threshold =
     \<lparr>owner = own, api_base = base, model = load stored, model_path = path,
      threshold = risk_threshold\<rparr>"

fun getitems :: "feats \<Rightarrow> string list \<Rightarrow> pyexc + real list" where
  \<comment> \<open>\<^verbatim>\<open>[feats[c] for c in cols]\<close>\<close>
  "getitems d [] = Inr []"
| "getitems d (c # cs) =
     (case map_of d c of
        None \<Rightarrow> Inl KeyError
      | Some v \<Rightarrow> (case getitems d cs of Inl e \<Rightarrow> Inl e | Inr vs \<Rightarrow> Inr (v # vs)))"

definition features :: "agent \<Rightarrow> pyenv \<Rightarrow> int \<Rightarrow> tx \<Rightarrow> pyexc + matrix \<times> string list" where
  "features ag env now t =
     (case extract_features env now t of Inl e \<Rightarrow> Inl e | Inr fs \<Rightarrow>
      let cols = sort (map fst fs) in
     (case getitems fs cols of Inl e \<Rightarrow> Inl e | Inr row \<Rightarrow>
      let X = [row] in
      if scaler (model ag) \<noteq> ONone then
        (case get_transform (scaler (model ag)) of
           None \<Rightarrow> Inl AttributeError
         | Some f \<Rightarrow> (case f X of Inl e \<Rightarrow> Inl e | Inr X' \<Rightarrow> Inr (X', cols)))
      else Inr (X, cols)))"

definition clf_proba :: "pyobj \<Rightarrow> matrix \<Rightarrow> pyfloat" where
  \<comment> \<open>lines 127-132 of \<^verbatim>\<open>score\<close>: the classifier probability, 0.5 by default\<close>
  "clf_proba c X =
     (case get_predict_proba c of
        None \<Rightarrow> Fin 0.5
      | Some f \<Rightarrow>
         (case f X of
            Inl e \<Rightarrow> Fin 0.5
          | Inr ps \<Rightarrow> (case first_elem ps of Inl e \<Rightarrow> Fin 0.5 | Inr v \<Rightarrow> v)))"

definition iso_blend :: "pyenv \<Rightarrow> pyobj \<Rightarrow> matrix \<Rightarrow> pyfloat \<Rightarrow> pyfloat" where
  \<comment> \<open>lines 134-141 of \<^verbatim>\<open>score\<close>: the blend with the squashed anomaly score\<close>
  "iso_blend env d X p =
     (if d \<noteq> ONone then
        (case get_score_samples d of
           None \<Rightarrow> p
         | Some g \<Rightarrow>
            (case g X of
               Inl e \<Rightarrow> p
             | Inr vs \<Rightarrow>
                (case first_elem vs of
                   Inl e \<Rightarrow> p
                 | Inr v \<Rightarrow>
                    let s = float_neg v in
                    (case math_exp env (float_neg s) of
                       Inl e \<Rightarrow> p
                     | Inr ex \<Rightarrow>
                        (case float_div env (Fin 1) (float_add env (Fin 1) ex) of
                           Inl e \<Rightarrow> p
                         | Inr s \<Rightarrow>
                            float_add env (float_mul env (Fin 0.5) p)
                              (float_mul env (Fin 0.5) s))))))
      else p)"

definition score :: "agent \<Rightarrow> pyenv \<Rightarrow> int \<Rightarrow> tx \<Rightarrow> pyexc + pyfloat" where
  "score ag env now t =
     (case features ag env now t of Inl e \<Rightarrow> Inl e | Inr (X, cols) \<Rightarrow>
      let p = clf_proba (clf (model ag)) X;
          p = iso_blend env (iso (model ag)) X p in
      Inr (py_min (py_max p (Fin 0)) (Fin 1)))"

definition classify :: "agent \<Rightarrow> pyfloat \<Rightarrow> string" where
  "classify ag p =
     (if float_ge p (Fin (max (threshold ag) 0.9)) then ''critical''
      else if float_ge p (Fin (threshold ag)) then ''high''
      else if float_ge p (Fin 0.4) then ''medium''
      else ''low'')"

record assessment =
  risk :: pyfloat
  level :: string

record alert_payload =
  alert_tx :: tx
  alert_risk :: pyfloat
  alert_level :: string

definition alert :: "tx \<Rightarrow> pyfloat \<Rightarrow> string \<Rightarrow> alert_payload list" where
  \<comment> \<open>the payload posted and logged; a failed post is swallowed\<close>
  "alert t p lvl = [\<lparr>alert_tx = t, alert_risk = p, alert_level = lvl\<rparr>]"

definition process_tx :: "agent \<Rightarrow> pyenv \<Rightarrow> int \<Rightarrow> tx \<Rightarrow> pyexc + assessment \<times> alert_payload list" where
  \<comment> \<open>the returned dict, with the alerts raised on the way\<close>
  "process_tx ag env now t =
     (case score ag env now t of Inl e \<Rightarrow> Inl e | Inr p \<Rightarrow>
      let lvl = classify ag p;
          result = \<lparr>risk = p, level = lvl\<rparr> in
      if lvl \<in> set [''high'', ''critical''] then Inr (result, alert t p lvl)
      else Inr (result, []))"

section \<open>The offline trainer\<close>

text \<open>
  A data frame is the list of its rows, in \<^verbatim>\<open>iterrows\<close> order, as returned by
  \<^verbatim>\<open>load_dataset\<close>; each row comes with the clock reading at the moment
  \<^verbatim>\<open>_extract_features\<close> is called on it. A cell is read as the Python value it
  converts to; the NaN that pandas puts in an empty cell is, like every NaN, outside the
  model.
\<close>

type_synonym frame = "(int \<times> tx) list"

fun featurize_rows :: "pyenv \<Rightarrow> frame \<Rightarrow> pyexc + feats list \<times> int list" where
  \<comment> \<open>the \<^verbatim>\<open>for\<close> loop of \<^verbatim>\<open>featurize\<close>\<close>
  "featurize_rows env [] = Inr ([], [])"
| "featurize_rows env ((now, row) # rest) =
     (case extract_features_mirror env now row of Inl e \<Rightarrow> Inl e | Inr f \<Rightarrow>
     (case py_int env (dict_get row ''label'' (PInt 0)) of Inl e \<Rightarrow> Inl e | Inr l \<Rightarrow>
     (case featurize_rows env rest of Inl e \<Rightarrow> Inl e | Inr (fs, ls) \<Rightarrow> Inr (f # fs, l # ls))))"

fun rows_of :: "feats list \<Rightarrow> string list \<Rightarrow> pyexc + matrix" where
  \<comment> \<open>\<^verbatim>\<open>[[fi[c] for c in cols] for fi in feats]\<close>\<close>
  "rows_of [] cols = Inr []"
| "rows_of (fi # fis) cols =
     (case getitems fi cols of Inl e \<Rightarrow> Inl e | Inr r \<Rightarrow>
     (case rows_of fis cols of Inl e \<Rightarrow> Inl e | Inr rs \<Rightarrow> Inr (r # rs)))"

definition int64_array :: "int list \<Rightarrow> pyexc + int list" where
  \<comment> \<open>\<^verbatim>\<open>np.array(labels, dtype=int)\<close>\<close>
  "int64_array ls =
     (if list_all (\<lambda>l. - (2 ^ 63) \<le> l \<and> l < 2 ^ 63) ls then Inr ls else Inl OverflowError)"

definition featurize :: "pyenv \<Rightarrow> frame \<Rightarrow> pyexc + matrix \<times> int list \<times> string list" where
  "featurize env df =
     (case featurize_rows env df of Inl e \<Rightarrow> Inl e | Inr (fs, labels) \<Rightarrow>
      let cols = (case fs of [] \<Rightarrow> [] | f0 # _ \<Rightarrow> sort (map fst f0)) in
     (case rows_of fs cols of Inl e \<Rightarrow> Inl e | Inr X \<Rightarrow>
     (case int64_array labels of Inl e \<Rightarrow> Inl e | Inr y \<Rightarrow> Inr (X, y, cols))))"

text \<open>
  The scikit-learn calls of the trainer, with the arguments the source fixes:
  \<^verbatim>\<open>train_test_split(X, y, test_size=0.25, random_state=42, stratify=y)\<close>;
  \<^verbatim>\<open>StandardScaler().fit_transform(X)\<close>, giving the fitted scaler and the scaled matrix;
  the fits of the classifier and of the isolation forest; the two metrics. The area
  under the curve is \<open>None\<close> when it is NaN.
\<close>

record 'rep sklearn =
  train_test_split :: "matrix \<Rightarrow> int list \<Rightarrow> pyexc + matrix \<times> matrix \<times> int list \<times> int list"
  fit_scaler :: "matrix \<Rightarrow> pyexc + pyobj \<times> matrix"
  fit_clf :: "matrix \<Rightarrow> int list \<Rightarrow> pyexc + pyobj"
  fit_iso :: "matrix \<Rightarrow> pyexc + pyobj"
  classification_report :: "int list \<Rightarrow> int list \<Rightarrow> pyexc + 'rep"
  roc_auc_score :: "int list \<Rightarrow> pyfloat list \<Rightarrow> pyexc + real option"

definition train :: "'rep sklearn \<Rightarrow> matrix \<Rightarrow> int list \<Rightarrow> pyexc + FraudModel" where
  "train sk X y =
     (case fit_scaler sk X of Inl e \<Rightarrow> Inl e | Inr (sc, Xs) \<Rightarrow>
     (case fit_clf sk Xs y of Inl e \<Rightarrow> Inl e | Inr c \<Rightarrow>
     (case fit_iso sk Xs of Inl e \<Rightarrow> Inl e | Inr i \<Rightarrow>
      Inr \<lparr>scaler = sc, clf = c, iso = i\<rparr>)))"

record 'rep metrics =
  auc :: "real option"
  report :: 'rep

definition evaluate :: "'rep sklearn \<Rightarrow> FraudModel \<Rightarrow> matrix \<Rightarrow> int list \<Rightarrow> pyexc + 'rep metrics" where
  "evaluate sk m X y =
     (case (if scaler m \<noteq> ONone then
              (case get_transform (scaler m) of None \<Rightarrow> Inl AttributeError | Some f \<Rightarrow> f X)
            else Inr X) of Inl e \<Rightarrow> Inl e | Inr Xs \<Rightarrow>
     (case (case get_predict_proba (clf m) of
              Some f \<Rightarrow> f Xs
            | None \<Rightarrow> Inr (replicate (length y) (Fin 0.5))) of Inl e \<Rightarrow> Inl e | Inr proba \<Rightarrow>
      let preds = map (\<lambda>q. if float_ge q (Fin 0.5) then 1 else 0) proba in
     (case classification_report sk y preds of Inl e \<Rightarrow> Inl e | Inr rep \<Rightarrow>
     (case (if length (remdups y) > 1 then roc_auc_score sk y proba else Inr None) of
        Inl e \<Rightarrow> Inl e
      | Inr a \<Rightarrow> Inr \<lparr>auc = a, report = rep\<rparr>))))"

datatype abort = SystemExit string | Uncaught pyexc

record 'rep run =
  dumped :: pyobj
  printed_metrics :: "'rep metrics"
  printed_path :: string

definition main :: "'rep sklearn \<Rightarrow> pyenv \<Rightarrow> string \<Rightarrow> frame \<Rightarrow> abort + 'rep run" where
  \<comment> \<open>\<open>df\<close> is the frame \<^verbatim>\<open>load_dataset(args.data)\<close> returns, \<open>out\<close> is \<^verbatim>\<open>args.out\<close>\<close>
  "main sk env out df =
     (case featurize env df of Inl e \<Rightarrow> Inl (Uncaught e) | Inr (X, y, cols) \<Rightarrow>
      if length X = 0 then Inl (SystemExit ''No data rows'')
      else
     (case train_test_split sk X y of Inl e \<Rightarrow> Inl (Uncaught e) | Inr (X_tr, X_te, y_tr, y_te) \<Rightarrow>
     (case train sk X_tr y_tr of Inl e \<Rightarrow> Inl (Uncaught e) | Inr m \<Rightarrow>
     (case evaluate sk m X_te y_te of Inl e \<Rightarrow> Inl (Uncaught e) | Inr ms \<Rightarrow>
      Inr \<lparr>dumped = save m, printed_metrics = ms, printed_path = out\<rparr>))))"

section \<open>Concrete inputs\<close>

text \<open>
  The inputs at which the theorems below are evaluated. None of them carries a float or
  a numeric string, so the parsers and the printer of \<open>env0\<close> are never called, and its
  int range check is consulted on amounts up to 10000000000 only. Its arithmetic is the
  exact one on finite floats; it is consulted on \<^verbatim>\<open>math.exp(0.0)\<close>, \<^verbatim>\<open>1.0 + 1.0\<close>,
  \<^verbatim>\<open>1.0 / 2.0\<close>, \<^verbatim>\<open>0.5 * 0.75\<close>, \<^verbatim>\<open>0.5 * 0.5\<close> and \<^verbatim>\<open>0.375 + 0.25\<close> only, where
  floating point is exact as well.
\<close>

definition exact_op :: "(real \<Rightarrow> real \<Rightarrow> real) \<Rightarrow> pyfloat \<Rightarrow> pyfloat \<Rightarrow> pyfloat" where
  "exact_op f a b = (case (a, b) of (Fin x, Fin y) \<Rightarrow> Fin (f x y) | _ \<Rightarrow> NaN)"

definition env0 :: pyenv where
  "env0 =
     \<lparr>str_of_float = (\<lambda>r. ''0.0''), float_of_str = (\<lambda>s. None), int_of_str = (\<lambda>s. None),
      int_overflows = (\<lambda>i. False),
      float_add = exact_op (\<lambda>x y. x + y),
      float_mul = exact_op (\<lambda>x y. x * y),
      float_div = (\<lambda>a b. if b = Fin 0 then Inl ZeroDivisionError
                          else Inr (exact_op (\<lambda>x y. x / y) a b)),
      math_exp = (\<lambda>a. case a of Fin x \<Rightarrow> Inr (Fin (exp x)) | _ \<Rightarrow> Inr NaN)\<rparr>"

definition RISK_THRESHOLD :: real where
  \<comment> \<open>the module constant when the environment variable is unset\<close>
  "RISK_THRESHOLD = 0.7"

definition agent0 :: agent where
  \<comment> \<open>an agent started where no model file exists\<close>
  "agent0 =
     agent_init ''SP_OWNER'' ''http://localhost:3000/api''
       (Inl (OtherException ''FileNotFoundError'')) ''models/fraud_model.joblib'' RISK_THRESHOLD"

definition const_estimator :: "real \<Rightarrow> real \<Rightarrow> pyobj" where
  \<comment> \<open>a fitted estimator giving probability \<open>q\<close> and raw anomaly score \<open>v\<close> on every row\<close>
  "const_estimator q v =
     OEst \<lparr>transform = None, predict_proba = Some (\<lambda>X. Inr (map (\<lambda>row. Fin q) X)),
           score_samples = Some (\<lambda>X. Inr (map (\<lambda>row. Fin v) X))\<rparr>"

definition agent1 :: agent where
  \<comment> \<open>a trained model: probability 0.8, raw anomaly score 0\<close>
  "agent1 =
     agent0\<lparr>model := \<lparr>scaler = ONone, clf = const_estimator 0.8 0, iso = const_estimator 0.8 0\<rparr>\<rparr>"





definition tx1 :: tx where
  "tx1 = [''ts'' \<mapsto> PInt 1000, ''amount'' \<mapsto> PInt 1500000, ''status'' \<mapsto> PStr ''success'']"

definition tx_queued :: tx where
  \<comment> \<open>the end-to-end example of the specification, with a timestamp\<close>
  "tx_queued =
     [''ts'' \<mapsto> PInt 1000, ''amount'' \<mapsto> PInt 10000000000, ''status'' \<mapsto> PStr ''queued'',
      ''retry'' \<mapsto> PBool True, ''memo'' \<mapsto> PStr []]"

definition sk0 :: "unit sklearn" where
  \<comment> \<open>a scikit-learn whose AUC routine rejects every input\<close>
  "sk0 =
     \<lparr>train_test_split = (\<lambda>X y. Inr (X, X, y, y)),
      fit_scaler = (\<lambda>X. Inr (ONone, X)),
      fit_clf = (\<lambda>X y. Inr (const_estimator 0.8 0)),
      fit_iso = (\<lambda>X. Inr (const_estimator 0.8 0)),
      classification_report = (\<lambda>y preds. Inr ()),
      roc_auc_score = (\<lambda>y proba. Inl ValueError)\<rparr>"


definition feature_order :: "string list" where
  \<comment> \<open>\<^verbatim>\<open>sorted\<close> of the seven keys\<close>
  "feature_order =
     [''amount'', ''hour'', ''is_retry'', ''memo_len'', ''st_failed'', ''st_queued'', ''st_success'']"

section \<open>Auxiliary facts\<close>



lemma sorted_keys:
  "sort [''amount'', ''hour'', ''is_retry'', ''memo_len'', ''st_success'', ''st_failed'', ''st_queued'']
     = feature_order"
  by (simp add: feature_order_def)








lemma features_agent1_tx1:
  "features agent1 env0 0 tx1 =
     Inr ([[1500000, 0, 0, 0, 0, 0, 1]],
          [''amount'', ''hour'', ''is_retry'', ''memo_len'', ''st_failed'', ''st_queued'', ''st_success''])"
  by (simp add: features_def extract_features_def dict_get_def py_or_def safe_num_def lower_def
      tx1_def agent1_def agent0_def agent_init_def starts_with_def lower_char_def env0_def)

lemma features_agent0_tx1:
  "features agent0 env0 0 tx1 =
     Inr ([[1500000, 0, 0, 0, 0, 0, 1]],
          [''amount'', ''hour'', ''is_retry'', ''memo_len'', ''st_failed'', ''st_queued'', ''st_success''])"
  by (simp add: features_def extract_features_def dict_get_def py_or_def safe_num_def lower_def
      tx1_def agent0_def agent_init_def load_def default_model_def starts_with_def lower_char_def
      env0_def)




lemma extract_features_shape:
  assumes "extract_features env now t = Inr fs"
  shows "\<exists>a h r m ss sf sq. fs =
      [(''amount'', a), (''hour'', h), (''is_retry'', r), (''memo_len'', m),
       (''st_success'', ss), (''st_failed'', sf), (''st_queued'', sq)]"
  using assms by (auto simp add: extract_features_def Let_def split: sum.splits)

lemma extract_features_mirror_shape:
  assumes "extract_features_mirror env now t = Inr fs"
  shows "\<exists>a h r m ss sf sq. fs =
      [(''amount'', a), (''hour'', h), (''is_retry'', r), (''memo_len'', m),
       (''st_success'', ss), (''st_failed'', sf), (''st_queued'', sq)]"
  using assms by (auto simp add: extract_features_mirror_def Let_def split: sum.splits)

lemma getitems_feature_order:
  "getitems [(''amount'', a), (''hour'', h), (''is_retry'', r), (''memo_len'', m),
       (''st_success'', ss), (''st_failed'', sf), (''st_queued'', sq)] feature_order
     = Inr [a, h, r, m, sf, sq, ss]"
  by (simp add: feature_order_def)

lemma features_unscaled:
  assumes "scaler (model ag) = ONone"
    and "extract_features env now t =
      Inr [(''amount'', a), (''hour'', h), (''is_retry'', r), (''memo_len'', m),
           (''st_success'', ss), (''st_failed'', sf), (''st_queued'', sq)]"
  shows "features ag env now t = Inr ([[a, h, r, m, sf, sq, ss]], feature_order)"
  using assms by (simp add: features_def feature_order_def)

lemma features_cols:
  assumes "features ag env now t = Inr (X, cols)"
  shows "cols = feature_order"
proof -
  from assms obtain fs where fs: "extract_features env now t = Inr fs"
    by (auto simp add: features_def split: sum.splits)
  then obtain a h r m ss sf sq where "fs =
      [(''amount'', a), (''hour'', h), (''is_retry'', r), (''memo_len'', m),
       (''st_success'', ss), (''st_failed'', sf), (''st_queued'', sq)]"
    using extract_features_shape by blast
  with fs assms show ?thesis
    by (auto simp add: features_def feature_order_def Let_def split: sum.splits option.splits if_splits)
qed

lemma score_default_model:
  assumes "model ag = default_model" and "extract_features env now t = Inr fs"
  shows "score ag env now t = Inr (Fin 0.5)"
proof -
  from assms(2) obtain a h r m ss sf sq where "fs =
      [(''amount'', a), (''hour'', h), (''is_retry'', r), (''memo_len'', m),
       (''st_success'', ss), (''st_failed'', sf), (''st_queued'', sq)]"
    using extract_features_shape by blast
  with assms have "features ag env now t = Inr ([[a, h, r, m, sf, sq, ss]], feature_order)"
    by (simp add: features_unscaled default_model_def)
  then show ?thesis
    by (simp add: score_def assms(1) default_model_def clf_proba_def iso_blend_def
        LogisticRegression_unfitted_def IsolationForest_unfitted_def py_min_def py_max_def)
qed

lemma extract_tx_queued:
  "extract_features env0 0 tx_queued =
     Inr [(''amount'', 10000000000), (''hour'', 0), (''is_retry'', 1), (''memo_len'', 0),
          (''st_success'', 0), (''st_failed'', 0), (''st_queued'', 1)]"
  by (simp add: extract_features_def dict_get_def py_or_def safe_num_def lower_def
      tx_queued_def starts_with_def lower_char_def env0_def)

lemma is_retry_scorer:
  assumes "extract_features env now t = Inr fs"
  shows "map_of fs ''is_retry'' =
     Some (if truthy (dict_get t ''retry'' (PBool False)) then 1 else 0)"
  using assms by (auto simp add: extract_features_def Let_def split: sum.splits)

lemma is_retry_mirror:
  assumes "extract_features_mirror env now t = Inr fs"
  shows "map_of fs ''is_retry'' =
     Some (if py_in (dict_get t ''retry'' (PBool False))
                [PBool True, PInt 1, PStr ''1'', PStr ''true'', PStr ''True'']
           then 1 else 0)"
  using assms by (auto simp add: extract_features_mirror_def Let_def split: sum.splits)

lemma py_in_listed:
  "v \<in> {PBool True, PInt 1, PFloat 1, PStr ''1'', PStr ''true'', PStr ''True''} \<Longrightarrow>
   py_in v [PBool True, PInt 1, PStr ''1'', PStr ''true'', PStr ''True''] \<and> truthy v"
  by (auto simp add: py_in_def py_eq_def)

lemma py_in_truthy:
  "py_in v [PBool True, PInt 1, PStr ''1'', PStr ''true'', PStr ''True''] \<Longrightarrow> truthy v"
  by (cases v) (auto simp add: py_in_def py_eq_def split: if_splits)

lemma featurize_rows_nth:
  assumes "featurize_rows env df = Inr (fs, ls)"
  shows "length fs = length df \<and>
     (\<forall>i<length df. extract_features_mirror env (fst (df ! i)) (snd (df ! i)) = Inr (fs ! i))"
  using assms
proof (induction df arbitrary: fs ls)
  case Nil
  then show ?case by simp
next
  case (Cons row rest)
  obtain now t where row: "row = (now, t)"
    by (cases row)
  from Cons.prems row obtain f l fs' ls' where
    f: "extract_features_mirror env now t = Inr f" and
    rest: "featurize_rows env rest = Inr (fs', ls')" and
    fs: "fs = f # fs'"
    by (auto split: sum.splits)
  from Cons.IH [OF rest] have len: "length fs' = length rest" and
    nth: "\<forall>i<length rest. extract_features_mirror env (fst (rest ! i)) (snd (rest ! i)) = Inr (fs' ! i)"
    by simp_all
  show ?case
  proof (intro conjI allI impI)
    show "length fs = length (row # rest)"
      using len fs by simp
  next
    fix i
    assume "i < length (row # rest)"
    then show "extract_features_mirror env (fst ((row # rest) ! i)) (snd ((row # rest) ! i)) = Inr (fs ! i)"
      using f nth fs row by (cases i) simp_all
  qed
qed

lemma rows_of_nth:
  assumes "rows_of fs cols = Inr X"
  shows "length X = length fs \<and> (\<forall>i<length fs. getitems (fs ! i) cols = Inr (X ! i))"
  using assms
proof (induction fs arbitrary: X)
  case Nil
  then show ?case by simp
next
  case (Cons f fs')
  from Cons.prems obtain r rs where
    r: "getitems f cols = Inr r" and
    rs: "rows_of fs' cols = Inr rs" and
    X: "X = r # rs"
    by (auto split: sum.splits)
  from Cons.IH [OF rs] have len: "length rs = length fs'" and
    nth: "\<forall>i<length fs'. getitems (fs' ! i) cols = Inr (rs ! i)"
    by simp_all
  show ?case
  proof (intro conjI allI impI)
    show "length X = length (f # fs')"
      using len X by simp
  next
    fix i
    assume "i < length (f # fs')"
    then show "getitems ((f # fs') ! i) cols = Inr (X ! i)"
      using r nth X by (cases i) simp_all
  qed
qed

lemma featurize_nonempty:
  assumes "df \<noteq> []" and "featurize env df = Inr (X, y, cols)"
  shows "cols = feature_order \<and> length X = length df \<and>
     (\<forall>i<length df. \<exists>a h r m ss sf sq.
        extract_features_mirror env (fst (df ! i)) (snd (df ! i)) =
          Inr [(''amount'', a), (''hour'', h), (''is_retry'', r), (''memo_len'', m),
               (''st_success'', ss), (''st_failed'', sf), (''st_queued'', sq)] \<and>
        X ! i = [a, h, r, m, sf, sq, ss])"
proof -
  from assms(2) obtain fs ls where rows: "featurize_rows env df = Inr (fs, ls)"
    by (auto simp add: featurize_def split: sum.splits)
  from featurize_rows_nth [OF rows] have len: "length fs = length df" and
    nth: "\<forall>i<length df. extract_features_mirror env (fst (df ! i)) (snd (df ! i)) = Inr (fs ! i)"
    by simp_all
  from len assms(1) obtain f0 fs' where fs: "fs = f0 # fs'"
    by (cases fs) auto
  from nth assms(1) fs have "extract_features_mirror env (fst (df ! 0)) (snd (df ! 0)) = Inr f0"
    by (cases df) auto
  then obtain a h r m ss sf sq where f0: "f0 =
      [(''amount'', a), (''hour'', h), (''is_retry'', r), (''memo_len'', m),
       (''st_success'', ss), (''st_failed'', sf), (''st_queued'', sq)]"
    using extract_features_mirror_shape by blast
  have srt: "sort (map fst f0) = feature_order"
    by (simp add: f0 feature_order_def)
  from assms(2) rows fs srt have cols: "cols = feature_order" and X: "rows_of fs feature_order = Inr X"
    by (auto simp add: featurize_def split: sum.splits)
  from rows_of_nth [OF X] have lenX: "length X = length fs" and
    nthX: "\<forall>i<length fs. getitems (fs ! i) feature_order = Inr (X ! i)"
    by simp_all
  have "\<forall>i<length df. \<exists>a h r m ss sf sq.
        extract_features_mirror env (fst (df ! i)) (snd (df ! i)) =
          Inr [(''amount'', a), (''hour'', h), (''is_retry'', r), (''memo_len'', m),
               (''st_success'', ss), (''st_failed'', sf), (''st_queued'', sq)] \<and>
        X ! i = [a, h, r, m, sf, sq, ss]"
  proof (intro allI impI)
    fix i
    assume i: "i < length df"
    with nth have e: "extract_features_mirror env (fst (df ! i)) (snd (df ! i)) = Inr (fs ! i)"
      by simp
    then obtain a h r m ss sf sq where fi: "fs ! i =
        [(''amount'', a), (''hour'', h), (''is_retry'', r), (''memo_len'', m),
         (''st_success'', ss), (''st_failed'', sf), (''st_queued'', sq)]"
      using extract_features_mirror_shape by blast
    from nthX i len have "getitems (fs ! i) feature_order = Inr (X ! i)"
      by simp
    with fi have "X ! i = [a, h, r, m, sf, sq, ss]"
      by (simp add: getitems_feature_order)
    with e fi show "\<exists>a h r m ss sf sq.
        extract_features_mirror env (fst (df ! i)) (snd (df ! i)) =
          Inr [(''amount'', a), (''hour'', h), (''is_retry'', r), (''memo_len'', m),
               (''st_success'', ss), (''st_failed'', sf), (''st_queued'', sq)] \<and>
        X ! i = [a, h, r, m, sf, sq, ss]"
      by simp
  qed
  with cols lenX len show ?thesis
    by simp
qed

lemma featurize_tx1:
  "featurize env0 [(0, tx1)] =
     Inr ([[1500000, 0, 0, 0, 0, 0, 1]], [0],
          [''amount'', ''hour'', ''is_retry'', ''memo_len'', ''st_failed'', ''st_queued'', ''st_success''])"
  by (simp add: featurize_def extract_features_mirror_def dict_get_def py_or_def safe_num_def
      lower_def tx1_def starts_with_def lower_char_def py_in_def py_eq_def int64_array_def
      env0_def)

lemma main_dumps_saved_model:
  assumes "main sk env out df = Inr run"
  shows "\<exists>m. dumped run = save m"
  using assms
  by (auto simp add: main_def split: sum.splits prod.splits if_splits)




section \<open>Risk score\<close>




section \<open>Severity bands\<close>

text \<open>
  C3: for every risk value and every threshold \<open>t\<close>, \<^verbatim>\<open>classify\<close> returns critical
  exactly when \<open>p \<ge> max t 0.9\<close>, otherwise high exactly when \<open>p \<ge> t\<close>, otherwise medium
  exactly when \<open>p \<ge> 0.4\<close>, otherwise low. Each band contains its lower bound, and the
  four conditions are mutually exclusive and exhaustive. A NaN, which no comparison
  accepts, is low; so is minus infinity, and plus infinity is critical.
\<close>

theorem classify_bands:
  "(classify ag (Fin p) = ''critical'' \<longleftrightarrow> max (threshold ag) 0.9 \<le> p) \<and>
   (classify ag (Fin p) = ''high'' \<longleftrightarrow> threshold ag \<le> p \<and> p < max (threshold ag) 0.9) \<and>
   (classify ag (Fin p) = ''medium'' \<longleftrightarrow> 0.4 \<le> p \<and> p < threshold ag) \<and>
   (classify ag (Fin p) = ''low'' \<longleftrightarrow> p < 0.4 \<and> p < threshold ag) \<and>
   classify ag NaN = ''low'' \<and> classify ag NegInf = ''low'' \<and>
   classify ag PosInf = ''critical''"
  by (auto simp add: classify_def float_ge_def)

text \<open>With the default threshold 0.7: 0.95 is critical, 0.75 high, 0.5 medium, 0.1 low.\<close>

theorem classify_bands_witness:
  "classify agent0 (Fin 0.95) = ''critical'' \<and> classify agent0 (Fin 0.75) = ''high'' \<and>
   classify agent0 (Fin 0.5) = ''medium'' \<and> classify agent0 (Fin 0.1) = ''low''"
  using classify_bands [of agent0 "0.95"] classify_bands [of agent0 "0.75"]
    classify_bands [of agent0 "0.5"] classify_bands [of agent0 "0.1"]
  by (simp add: agent0_def agent_init_def RISK_THRESHOLD_def)

section \<open>The feature extractor\<close>

text \<open>
  C2: the extractor is meant to be total, any field that cannot be coerced defaulting to
  zero. On the empty record both extractors do return, with amount, is_retry, memo_len
  and the three status flags all 0. They are not total: a memo that is a number, or a
  timestamp that is a string, raises TypeError in both modules, where the amount field
  goes through \<^verbatim>\<open>_safe_num\<close> and defaults to 0.
\<close>

theorem extract_features_not_total:
  "extract_features env now Map.empty =
     Inr [(''amount'', 0), (''hour'', real_of_int ((now div 1000) mod 86400 div 3600)),
          (''is_retry'', 0), (''memo_len'', 0),
          (''st_success'', 0), (''st_failed'', 0), (''st_queued'', 0)] \<and>
   extract_features_mirror env now Map.empty = extract_features env now Map.empty \<and>
   extract_features env now [''amount'' \<mapsto> PColl 2 ''[1, 2]''] = extract_features env now Map.empty \<and>
   extract_features env now [''memo'' \<mapsto> PInt 5] = Inl TypeError \<and>
   extract_features env now [''ts'' \<mapsto> PStr ''abc''] = Inl TypeError \<and>
   extract_features_mirror env now [''memo'' \<mapsto> PInt 5] = Inl TypeError \<and>
   extract_features_mirror env now [''ts'' \<mapsto> PStr ''abc''] = Inl TypeError"
  by (simp add: extract_features_def extract_features_mirror_def dict_get_def py_or_def
      safe_num_def lower_def py_in_def py_eq_def)

text \<open>
  C5: the two modules are meant to hold the same logic. They do not: on a retry field
  that is truthy but none of \<^verbatim>\<open>True, 1, "1", "true", "True"\<close>, such as the string
  \<^verbatim>\<open>"yes"\<close>, the scorer's extractor gives is_retry 1 and the trainer's gives 0.
\<close>

theorem mirrored_extractors_differ:
  "extract_features env now [''retry'' \<mapsto> PStr ''yes''] =
     Inr [(''amount'', 0), (''hour'', real_of_int ((now div 1000) mod 86400 div 3600)),
          (''is_retry'', 1), (''memo_len'', 0),
          (''st_success'', 0), (''st_failed'', 0), (''st_queued'', 0)] \<and>
   extract_features_mirror env now [''retry'' \<mapsto> PStr ''yes''] =
     Inr [(''amount'', 0), (''hour'', real_of_int ((now div 1000) mod 86400 div 3600)),
          (''is_retry'', 0), (''memo_len'', 0),
          (''st_success'', 0), (''st_failed'', 0), (''st_queued'', 0)] \<and>
   extract_features env now [''retry'' \<mapsto> PStr ''yes''] \<noteq>
     extract_features_mirror env now [''retry'' \<mapsto> PStr ''yes'']"
  by (simp add: extract_features_def extract_features_mirror_def dict_get_def py_or_def
      safe_num_def lower_def py_in_def py_eq_def)



section \<open>Loading a model\<close>

text \<open>
  C4, as the code has it: \<^verbatim>\<open>load\<close> never raises. When the file cannot be read, or what
  it holds is not a mapping with exactly the three fields, it returns the default model:
  no scaler, an unfitted logistic regression and an unfitted isolation forest. The
  anomaly detector is present; both estimators raise NotFittedError when called. On every
  transaction whose features can be extracted, scoring with that model returns 0.5, and
  \<^verbatim>\<open>process_tx\<close> returns the pair of 0.5 and its level, medium for a threshold above
  0.5.
\<close>

theorem load_falls_back_to_default:
  "load (Inl e) = default_model \<and>
   (FraudModel_of obj = Inl e' \<longrightarrow> load (Inr obj) = default_model) \<and>
   scaler default_model = ONone \<and>
   get_predict_proba (clf default_model) = Some (\<lambda>X. Inl NotFittedError) \<and>
   iso default_model \<noteq> ONone \<and>
   get_score_samples (iso default_model) = Some (\<lambda>X. Inl NotFittedError) \<and>
   (model ag = default_model \<and> extract_features env now t = Inr fs \<longrightarrow>
      score ag env now t = Inr (Fin 0.5) \<and>
      process_tx ag env now t =
        Inr (\<lparr>risk = Fin 0.5, level = classify ag (Fin 0.5)\<rparr>,
             if threshold ag \<le> 0.5 then alert t (Fin 0.5) (classify ag (Fin 0.5)) else []) \<and>
      (0.5 < threshold ag \<longrightarrow> classify ag (Fin 0.5) = ''medium''))"
proof -
  have "load (Inl e) = default_model"
    by (simp add: load_def)
  moreover have "FraudModel_of obj = Inl e' \<longrightarrow> load (Inr obj) = default_model"
    by (simp add: load_def)
  moreover have "scaler default_model = ONone \<and>
      get_predict_proba (clf default_model) = Some (\<lambda>X. Inl NotFittedError) \<and>
      iso default_model \<noteq> ONone \<and>
      get_score_samples (iso default_model) = Some (\<lambda>X. Inl NotFittedError)"
    by (simp add: default_model_def LogisticRegression_unfitted_def IsolationForest_unfitted_def)
  moreover have "model ag = default_model \<and> extract_features env now t = Inr fs \<longrightarrow>
      score ag env now t = Inr (Fin 0.5) \<and>
      process_tx ag env now t =
        Inr (\<lparr>risk = Fin 0.5, level = classify ag (Fin 0.5)\<rparr>,
             if threshold ag \<le> 0.5 then alert t (Fin 0.5) (classify ag (Fin 0.5)) else []) \<and>
      (0.5 < threshold ag \<longrightarrow> classify ag (Fin 0.5) = ''medium'')"
  proof
    assume a: "model ag = default_model \<and> extract_features env now t = Inr fs"
    then have s: "score ag env now t = Inr (Fin 0.5)"
      using score_default_model by blast
    have c: "0.5 < threshold ag \<longrightarrow> classify ag (Fin 0.5) = ''medium''"
      by (auto simp add: classify_def float_ge_def max_def)
    have "process_tx ag env now t =
        Inr (\<lparr>risk = Fin 0.5, level = classify ag (Fin 0.5)\<rparr>,
             if threshold ag \<le> 0.5 then alert t (Fin 0.5) (classify ag (Fin 0.5)) else [])"
      by (auto simp add: process_tx_def s Let_def classify_def float_ge_def max_def)
    with s c show "score ag env now t = Inr (Fin 0.5) \<and>
      process_tx ag env now t =
        Inr (\<lparr>risk = Fin 0.5, level = classify ag (Fin 0.5)\<rparr>,
             if threshold ag \<le> 0.5 then alert t (Fin 0.5) (classify ag (Fin 0.5)) else []) \<and>
      (0.5 < threshold ag \<longrightarrow> classify ag (Fin 0.5) = ''medium'')"
      by simp
  qed
  ultimately show ?thesis
    by simp
qed

text \<open>
  The end-to-end example: a missing model file, a garbage file, and the queued
  transaction scored at 0.5, medium, without an alert.
\<close>

theorem load_falls_back_to_default_witness:
  "load (Inl (OtherException ''FileNotFoundError'')) = default_model \<and>
   FraudModel_of (OStrs [''not'', ''a'', ''model'']) = Inl TypeError \<and>
   load (Inr (OStrs [''not'', ''a'', ''model''])) = default_model \<and>
   model agent0 = default_model \<and>
   extract_features env0 0 tx_queued =
     Inr [(''amount'', 10000000000), (''hour'', 0), (''is_retry'', 1), (''memo_len'', 0),
          (''st_success'', 0), (''st_failed'', 0), (''st_queued'', 1)] \<and>
   score agent0 env0 0 tx_queued = Inr (Fin 0.5) \<and>
   process_tx agent0 env0 0 tx_queued = Inr (\<lparr>risk = Fin 0.5, level = ''medium''\<rparr>, [])"
proof -
  have m: "model agent0 = default_model"
    by (simp add: agent0_def agent_init_def load_def)
  have t: "threshold agent0 = 0.7"
    by (simp add: agent0_def agent_init_def RISK_THRESHOLD_def)
  have c: "FraudModel_of (OStrs [''not'', ''a'', ''model'']) = Inl TypeError"
    by simp
  from load_falls_back_to_default
    [of "OtherException ''FileNotFoundError''" "OStrs [''not'', ''a'', ''model'']" TypeError
      agent0 env0 0 tx_queued]
    m t c extract_tx_queued
  show ?thesis
    by simp
qed

text \<open>
  C4 as stated fails: the default model does hold an anomaly detector, its classifier
  raises instead of returning 0.5, and scoring does not return on every transaction.
\<close>

theorem default_artifact_counterexample:
  "iso (load (Inl (OtherException ''FileNotFoundError''))) \<noteq> ONone \<and>
   map_option (\<lambda>f. f [[0]]) (get_predict_proba (clf (load (Inl (OtherException ''FileNotFoundError'')))))
     = Some (Inl NotFittedError) \<and>
   map_option (\<lambda>g. g [[0]]) (get_score_samples (iso (load (Inl (OtherException ''FileNotFoundError'')))))
     = Some (Inl NotFittedError) \<and>
   process_tx agent0 env0 0 [''memo'' \<mapsto> PInt 5] = Inl TypeError"
  by (simp add: load_def default_model_def LogisticRegression_unfitted_def
      IsolationForest_unfitted_def process_tx_def score_def features_def extract_features_def
      dict_get_def py_or_def)

section \<open>The retry flag\<close>

text \<open>
  C6: the is_retry feature is meant to be 1 exactly when the retry field is boolean
  true, the number 1, or the string \<^verbatim>\<open>"1"\<close> or \<^verbatim>\<open>"true"\<close> in any letter case, and 0
  otherwise. Neither module does that. The trainer's module lists \<^verbatim>\<open>"true"\<close> and
  \<^verbatim>\<open>"True"\<close> only, so \<^verbatim>\<open>"TRUE"\<close> gives 0 there, where the scorer's module gives 1. The
  scorer's module tests truthiness, so \<^verbatim>\<open>"false"\<close> gives 1 there, where the trainer's
  module gives 0. On each input one module follows the rule and its sibling breaks it.
\<close>

theorem is_retry_rule_broken:
  "extract_features_mirror env now [''retry'' \<mapsto> PStr ''TRUE''] =
     Inr [(''amount'', 0), (''hour'', real_of_int ((now div 1000) mod 86400 div 3600)),
          (''is_retry'', 0), (''memo_len'', 0),
          (''st_success'', 0), (''st_failed'', 0), (''st_queued'', 0)] \<and>
   extract_features env now [''retry'' \<mapsto> PStr ''TRUE''] =
     Inr [(''amount'', 0), (''hour'', real_of_int ((now div 1000) mod 86400 div 3600)),
          (''is_retry'', 1), (''memo_len'', 0),
          (''st_success'', 0), (''st_failed'', 0), (''st_queued'', 0)] \<and>
   extract_features env now [''retry'' \<mapsto> PStr ''false''] =
     Inr [(''amount'', 0), (''hour'', real_of_int ((now div 1000) mod 86400 div 3600)),
          (''is_retry'', 1), (''memo_len'', 0),
          (''st_success'', 0), (''st_failed'', 0), (''st_queued'', 0)] \<and>
   extract_features_mirror env now [''retry'' \<mapsto> PStr ''false''] =
     Inr [(''amount'', 0), (''hour'', real_of_int ((now div 1000) mod 86400 div 3600)),
          (''is_retry'', 0), (''memo_len'', 0),
          (''st_success'', 0), (''st_failed'', 0), (''st_queued'', 0)]"
  by (simp add: extract_features_def extract_features_mirror_def dict_get_def py_or_def
      safe_num_def lower_def py_in_def py_eq_def)

section \<open>Feature order\<close>

text \<open>
  C7, as the code has it: the column order is the sorted one, amount, hour, is_retry,
  memo_len, st_failed, st_queued, st_success. Whenever the scorer's \<^verbatim>\<open>features\<close>
  returns, it returns these columns, and without a scaler the vector lists the extracted
  values in that order. Whenever the trainer's \<^verbatim>\<open>featurize\<close> returns on a frame with at
  least one row, it returns the same columns and one such vector per row.
\<close>

theorem feature_order_fixed:
  "(features ag env now t = Inr (X, cols) \<longrightarrow>
      cols = [''amount'', ''hour'', ''is_retry'', ''memo_len'', ''st_failed'', ''st_queued'', ''st_success'']) \<and>
   (scaler (model ag) = ONone \<and>
    extract_features env now t =
      Inr [(''amount'', a), (''hour'', h), (''is_retry'', r), (''memo_len'', m),
           (''st_success'', ss), (''st_failed'', sf), (''st_queued'', sq)] \<longrightarrow>
      features ag env now t =
        Inr ([[a, h, r, m, sf, sq, ss]],
             [''amount'', ''hour'', ''is_retry'', ''memo_len'', ''st_failed'', ''st_queued'', ''st_success''])) \<and>
   (df \<noteq> [] \<and> featurize env df = Inr (X', y, cols') \<longrightarrow>
      cols' = [''amount'', ''hour'', ''is_retry'', ''memo_len'', ''st_failed'', ''st_queued'', ''st_success''] \<and>
      length X' = length df \<and>
      (\<forall>i<length df. \<exists>a h r m ss sf sq.
         extract_features_mirror env (fst (df ! i)) (snd (df ! i)) =
           Inr [(''amount'', a), (''hour'', h), (''is_retry'', r), (''memo_len'', m),
                (''st_success'', ss), (''st_failed'', sf), (''st_queued'', sq)] \<and>
         X' ! i = [a, h, r, m, sf, sq, ss]))"
  using features_cols [of ag env now t X cols]
    features_unscaled [of ag env now t a h r m ss sf sq]
    featurize_nonempty [of df env X' y cols']
  unfolding feature_order_def
  by blast

text \<open>The same transaction through the scorer and, as a one-row frame, through the trainer.\<close>

theorem feature_order_fixed_witness:
  "features agent0 env0 0 tx1 =
     Inr ([[1500000, 0, 0, 0, 0, 0, 1]],
          [''amount'', ''hour'', ''is_retry'', ''memo_len'', ''st_failed'', ''st_queued'', ''st_success'']) \<and>
   scaler (model agent0) = ONone \<and>
   extract_features env0 0 tx1 =
     Inr [(''amount'', 1500000), (''hour'', 0), (''is_retry'', 0), (''memo_len'', 0),
          (''st_success'', 1), (''st_failed'', 0), (''st_queued'', 0)] \<and>
   [(0, tx1)] \<noteq> [] \<and>
   featurize env0 [(0, tx1)] =
     Inr ([[1500000, 0, 0, 0, 0, 0, 1]], [0],
          [''amount'', ''hour'', ''is_retry'', ''memo_len'', ''st_failed'', ''st_queued'', ''st_success''])"
proof -
  have sc: "scaler (model agent0) = ONone"
    by (simp add: agent0_def agent_init_def load_def default_model_def)
  have ex: "extract_features env0 0 tx1 =
     Inr [(''amount'', 1500000), (''hour'', 0), (''is_retry'', 0), (''memo_len'', 0),
          (''st_success'', 1), (''st_failed'', 0), (''st_queued'', 0)]"
    by (simp add: extract_features_def dict_get_def py_or_def safe_num_def lower_def tx1_def
        starts_with_def lower_char_def env0_def)
  from feature_order_fixed [of agent0 env0 0 tx1 "[[1500000, 0, 0, 0, 0, 0, 1]]"
      "[''amount'', ''hour'', ''is_retry'', ''memo_len'', ''st_failed'', ''st_queued'', ''st_success'']"
      1500000 0 0 0 1 0 0 "[(0, tx1)]" "[[1500000, 0, 0, 0, 0, 0, 1]]" "[0]"
      "[''amount'', ''hour'', ''is_retry'', ''memo_len'', ''st_failed'', ''st_queued'', ''st_success'']"]
    sc ex featurize_tx1
  show ?thesis
    by simp
qed

text \<open>
  C7 as stated fails: the sorted order ends st_failed, st_queued, st_success, not
  st_success, st_failed, st_queued, and on a frame without rows the trainer's column
  list is empty.
\<close>

theorem feature_order_counterexample:
  "features agent0 env0 0 tx1 =
     Inr ([[1500000, 0, 0, 0, 0, 0, 1]],
          [''amount'', ''hour'', ''is_retry'', ''memo_len'', ''st_failed'', ''st_queued'', ''st_success'']) \<and>
   snd (projr (features agent0 env0 0 tx1)) \<noteq>
     [''amount'', ''hour'', ''is_retry'', ''memo_len'', ''st_success'', ''st_failed'', ''st_queued''] \<and>
   featurize env0 [] = Inr ([], [], [])"
  by (simp add: features_agent0_tx1 featurize_def int64_array_def)

section \<open>Persisted artifacts\<close>

text \<open>
  C8, as the code has it: the object the trainer persists holds exactly the three
  entries scaler, clf and iso, so no feature column order is stored; \<^verbatim>\<open>load\<close> compares
  nothing with the extractor and returns every saved model as it was saved. A stored
  mapping with any further entry, a column order included, is not accepted: \<^verbatim>\<open>load\<close>
  falls back to the default model. Every training run that completes writes a mapping
  of the three entries.
\<close>

theorem artifact_without_feature_order:
  "save m = ODict [(''scaler'', scaler m), (''clf'', clf m), (''iso'', iso m)] \<and>
   load (Inr (save m)) = m \<and>
   load (Inr (ODict [(''scaler'', scaler m), (''clf'', clf m), (''iso'', iso m),
                     (''feature_order'', OStrs cols)])) = default_model \<and>
   (main sk env out df = Inr run \<longrightarrow>
      (\<exists>m'::FraudModel. dumped run = ODict [(''scaler'', scaler m'), (''clf'', clf m'), (''iso'', iso m')])) \<and>
   (k \<notin> set [''scaler'', ''clf'', ''iso''] \<longrightarrow>
      load (Inr (ODict [(''scaler'', scaler m), (''clf'', clf m), (''iso'', iso m), (k, v)])) =
        default_model)"
proof -
  have "main sk env out df = Inr run \<longrightarrow>
      (\<exists>m'::FraudModel. dumped run = ODict [(''scaler'', scaler m'), (''clf'', clf m'), (''iso'', iso m')])"
    using main_dumps_saved_model [of sk env out df run] unfolding save_def by blast
  then show ?thesis
    by (simp add: save_def load_def)
qed

text \<open>
  A training run on a one-row frame, and what it writes; and what it writes, with a
  version entry added, is not loaded.
\<close>

theorem artifact_without_feature_order_witness:
  "main sk0 env0 ''models/fraud_model.joblib'' [(0, tx1)] =
     Inr \<lparr>dumped = ODict [(''scaler'', ONone), (''clf'', const_estimator 0.8 0),
                           (''iso'', const_estimator 0.8 0)],
          printed_metrics = \<lparr>auc = None, report = ()\<rparr>,
          printed_path = ''models/fraud_model.joblib''\<rparr> \<and>
   ''version'' \<notin> set [''scaler'', ''clf'', ''iso''] \<and>
   load (Inr (ODict [(''scaler'', ONone), (''clf'', const_estimator 0.8 0),
                     (''iso'', const_estimator 0.8 0), (''version'', OStrs [''1''])])) =
     default_model"
proof -
  have run: "main sk0 env0 ''models/fraud_model.joblib'' [(0, tx1)] =
     Inr \<lparr>dumped = ODict [(''scaler'', ONone), (''clf'', const_estimator 0.8 0),
                           (''iso'', const_estimator 0.8 0)],
          printed_metrics = \<lparr>auc = None, report = ()\<rparr>,
          printed_path = ''models/fraud_model.joblib''\<rparr>"
    by (simp add: main_def featurize_tx1 sk0_def train_def evaluate_def save_def
        const_estimator_def)
  have key: "''version'' \<notin> set [''scaler'', ''clf'', ''iso'']"
    by simp
  note art = artifact_without_feature_order [where sk = sk0 and env = env0
      and out = "''models/fraud_model.joblib''" and df = "[(0, tx1)]"
      and m = "\<lparr>scaler = ONone, clf = const_estimator 0.8 0, iso = const_estimator 0.8 0\<rparr>"
      and k = "''version''" and v = "OStrs [''1'']",
      THEN conjunct2, THEN conjunct2, THEN conjunct2]
  from art [THEN conjunct2, rule_format, OF key]
  have unloaded: "load (Inr (ODict [(''scaler'', ONone), (''clf'', const_estimator 0.8 0),
                     (''iso'', const_estimator 0.8 0), (''version'', OStrs [''1''])])) =
     default_model"
    by simp
  from art [THEN conjunct1] run key unloaded show ?thesis
    by simp
qed

text \<open>
  C8 as stated fails: what is saved for a trained model has no entry for the column
  order, and it is loaded back unchanged, nothing being compared.
\<close>

theorem artifact_counterexample:
  "save (model agent1) =
     ODict [(''scaler'', ONone), (''clf'', const_estimator 0.8 0), (''iso'', const_estimator 0.8 0)] \<and>
   \<not> list_ex (\<lambda>kv. snd kv = OStrs feature_order)
       [(''scaler'', ONone), (''clf'', const_estimator 0.8 0), (''iso'', const_estimator 0.8 0)] \<and>
   load (Inr (save (model agent1))) = model agent1"
  by (simp add: save_def load_def agent1_def const_estimator_def)

section \<open>Training failures\<close>




end
